theory Spec2Isabelle
  imports Complex_Main "HOL-Library.Sublist" "HOL-Library.AList"
begin

section \<open>The scan route of llmguard\<close>

text \<open>
  The development embeds the first \<open>POST\<close> handler of the scan route: the proxy to the
  scanning backend, the normalisation of the backend's payload and the local fallback
  scanners. Strings are lists of code units below 256 (the Latin-1 part of the UTF-16
  strings of the source). The request body is taken at its declared type
  \<open>ScanRequest\<close>; the backend's payload is declared \<open>any\<close> and is an arbitrary
  JSON value.
\<close>

subsection \<open>Strings\<close>

text \<open>\<open>String.prototype.toLowerCase\<close> on code units below 256: A-Z and the
  upper-case letters of Latin-1 (U+00C0 to U+00DE without U+00D7) move up by 32.\<close>

definition lower_char :: "char \<Rightarrow> char" where
  "lower_char c =
     (let n = (of_char c :: nat)
      in if (65 \<le> n \<and> n \<le> 90) \<or> (192 \<le> n \<and> n \<le> 222 \<and> n \<noteq> 215)
         then char_of (n + 32) else c)"

definition toLowerCase :: "string \<Rightarrow> string" where
  "toLowerCase s = map lower_char s"

text \<open>\<open>s.includes(w)\<close>: \<open>w\<close> occurs in \<open>s\<close> as a contiguous substring.\<close>

fun str_includes :: "string \<Rightarrow> string \<Rightarrow> bool" where
  "str_includes [] w = (w = [])"
| "str_includes (c # cs) w = (prefix w (c # cs) \<or> str_includes cs w)"

subsection \<open>Regular expressions\<close>

text \<open>
  The patterns of the handler use character classes, \<open>\b\<close>, sequence, alternation and
  greedy quantifiers, with the flag \<open>g\<close> only. A class is a list of inclusive ranges.
  Groups are never referred to by a replacement string, so capturing and non-capturing
  groups are the same here.
\<close>

type_synonym cset = "(char \<times> char) list"

definition in_class :: "cset \<Rightarrow> char \<Rightarrow> bool" where
  "in_class rs c =
     list_ex (\<lambda>(lo, hi). (of_char lo :: nat) \<le> of_char c \<and> (of_char c :: nat) \<le> of_char hi) rs"

datatype regex =
    Class cset
  | WordB
  | Seq regex regex
  | Alt regex regex
  | Rep nat "nat option" regex

fun rsize :: "regex \<Rightarrow> nat" where
  "rsize (Class _) = 0"
| "rsize WordB = 0"
| "rsize (Seq a b) = Suc (rsize a + rsize b)"
| "rsize (Alt a b) = Suc (rsize a + rsize b)"
| "rsize (Rep _ _ r) = Suc (rsize r)"

fun rmin :: "regex \<Rightarrow> nat" where
  "rmin (Rep mn _ _) = mn"
| "rmin _ = 0"

definition word_cs :: cset where
  "word_cs = [(CHR ''a'', CHR ''z''), (CHR ''A'', CHR ''Z''), (CHR ''0'', CHR ''9''),
              (CHR ''_'', CHR ''_'')]"

fun IsWordChar :: "char option \<Rightarrow> bool" where
  "IsWordChar None = False"
| "IsWordChar (Some c) = in_class word_cs c"

fun dec :: "nat option \<Rightarrow> nat option" where
  "dec None = None"
| "dec (Some k) = Some (k - 1)"

text \<open>
  A position in the input is the code unit before it (if any) and the rest of the input.
  \<open>m r x\<close> lists the positions where a match of \<open>r\<close> that starts at \<open>x\<close> can end, in
  the order in which the backtracking matcher of ECMAScript tries them; the match found
  is the head of the list. \<open>Rep mn mx r\<close> is the greedy quantifier \<open>r{mn,mx}\<close>
  (\<open>mx = None\<close> for no upper bound): as in \<open>RepeatMatcher\<close>, once the mandatory
  iterations are done an iteration that consumes nothing is rejected.
\<close>

type_synonym mstate = "char option \<times> string"

function (sequential) m :: "regex \<Rightarrow> mstate \<Rightarrow> mstate list" where
  "m (Class rs) (p, []) = []"
| "m (Class rs) (p, c # cs) = (if in_class rs c then [(Some c, cs)] else [])"
| "m WordB (p, s) =
     (if IsWordChar p \<noteq> IsWordChar (case s of [] \<Rightarrow> None | c # _ \<Rightarrow> Some c)
      then [(p, s)] else [])"
| "m (Seq a b) x = concat (map (m b) (m a x))"
| "m (Alt a b) x = m a x @ m b x"
| "m (Rep mn mx r) x =
     (if mx = Some 0 then [x]
      else if 0 < mn then concat (map (m (Rep (mn - 1) (dec mx) r)) (m r x))
      else concat (map (m (Rep 0 (dec mx) r))
                       (filter (\<lambda>y. length (snd y) < length (snd x)) (m r x))) @ [x])"
  by pat_completeness auto
termination
  by (relation "inv_image (less_than <*lex*> less_than <*lex*> less_than)
                  (\<lambda>(r, x). (rsize r, rmin r, length (snd x)))") auto

text \<open>The equation of the quantifier unfolds itself, so it is used by hand.\<close>

declare m.simps(6) [simp del]

text \<open>\<open>regex.test(s)\<close> with \<open>lastIndex = 0\<close>: some start position has a match.\<close>

fun test_from :: "regex \<Rightarrow> char option \<Rightarrow> string \<Rightarrow> bool" where
  "test_from r p [] = (m r (p, []) \<noteq> [])"
| "test_from r p (c # cs) = (m r (p, c # cs) \<noteq> [] \<or> test_from r (Some c) cs)"

definition test :: "regex \<Rightarrow> string \<Rightarrow> bool" where
  "test r s = test_from r None s"

text \<open>
  \<open>s.replace(regex, rep)\<close> for a global regex and a replacement string without \<open>$\<close>:
  \<open>lastIndex\<close> is reset to 0, every match found from left to right is replaced, the
  search goes on at the end of the match, and after an empty match one code unit further.
\<close>

function replace_from :: "regex \<Rightarrow> string \<Rightarrow> char option \<Rightarrow> string \<Rightarrow> string" where
  "replace_from r rep p s =
     (case m r (p, s) of
        (p', s') # _ \<Rightarrow>
          if length s' < length s then rep @ replace_from r rep p' s'
          else rep @ (case s of [] \<Rightarrow> [] | c # cs \<Rightarrow> c # replace_from r rep (Some c) cs)
      | [] \<Rightarrow> (case s of [] \<Rightarrow> [] | c # cs \<Rightarrow> c # replace_from r rep (Some c) cs))"
  by pat_completeness auto
termination
  by (relation "measure (\<lambda>(r, rep, p, s). length s)") auto

declare replace_from.simps [simp del]

definition replace :: "regex \<Rightarrow> string \<Rightarrow> string \<Rightarrow> string" where
  "replace r rep s = replace_from r rep None s"

subsection \<open>The patterns of the fallback scanners\<close>

definition lit :: "char \<Rightarrow> regex" where
  "lit c = Class [(c, c)]"

definition rplus :: "regex \<Rightarrow> regex" where
  "rplus r = Rep 1 None r"

definition ropt :: "regex \<Rightarrow> regex" where
  "ropt r = Rep 0 (Some 1) r"

definition rtimes :: "nat \<Rightarrow> regex \<Rightarrow> regex" where
  "rtimes n r = Rep n (Some n) r"

fun seqs :: "regex list \<Rightarrow> regex" where
  "seqs [] = Rep 0 (Some 0) WordB"
| "seqs [r] = r"
| "seqs (r # rs) = Seq r (seqs rs)"

definition digit :: cset where
  "digit = [(CHR ''0'', CHR ''9'')]"

definition lowercase :: cset where
  "lowercase = [(CHR ''a'', CHR ''z'')]"

definition uppercase :: cset where
  "uppercase = [(CHR ''A'', CHR ''Z'')]"

text \<open>\<open>\s\<close> below 256: TAB, LF, VT, FF, CR, space and the no-break space.\<close>

definition whitespace :: cset where
  "whitespace = [(CHR 0x09, CHR 0x0D), (CHR '' '', CHR '' ''), (CHR 0xA0, CHR 0xA0)]"

text \<open>\<^verbatim>\<open>/[a-zA-Z0-9._%+-]+@[a-zA-Z0-9.-]+\.[a-zA-Z]{2,}/g\<close>\<close>

definition emailRegex :: regex where
  "emailRegex = seqs [
     rplus (Class (lowercase @ uppercase @ digit @
                  [(CHR ''.'', CHR ''.''), (CHR ''_'', CHR ''_''), (CHR ''%'', CHR ''%''),
                   (CHR ''+'', CHR ''+''), (CHR ''-'', CHR ''-'')])),
     lit CHR ''@'',
     rplus (Class (lowercase @ uppercase @ digit @
                  [(CHR ''.'', CHR ''.''), (CHR ''-'', CHR ''-'')])),
     lit CHR ''.'',
     Rep 2 None (Class (lowercase @ uppercase))]"

text \<open>\<^verbatim>\<open>/(\+\d{1,3})?[\s.-]?\(?\d{3}\)?[\s.-]?\d{3}[\s.-]?\d{4}/g\<close>\<close>

definition phoneRegex :: regex where
  "phoneRegex = seqs [
     ropt (Seq (lit CHR ''+'') (Rep 1 (Some 3) (Class digit))),
     ropt (Class (whitespace @ [(CHR ''.'', CHR ''.''), (CHR ''-'', CHR ''-'')])),
     ropt (lit CHR ''(''),
     rtimes 3 (Class digit),
     ropt (lit CHR '')''),
     ropt (Class (whitespace @ [(CHR ''.'', CHR ''.''), (CHR ''-'', CHR ''-'')])),
     rtimes 3 (Class digit),
     ropt (Class (whitespace @ [(CHR ''.'', CHR ''.''), (CHR ''-'', CHR ''-'')])),
     rtimes 4 (Class digit)]"

text \<open>\<^verbatim>\<open>/\b(?:\d{4}[\s-]?){3}\d{4}\b/g\<close>\<close>

definition creditCardRegex :: regex where
  "creditCardRegex = seqs [
     WordB,
     rtimes 3 (Seq (rtimes 4 (Class digit)) (ropt (Class (whitespace @ [(CHR ''-'', CHR ''-'')])))),
     rtimes 4 (Class digit),
     WordB]"

text \<open>\<^verbatim>\<open>/\b\d{3}[-]?\d{2}[-]?\d{4}\b/g\<close>\<close>

definition ssnRegex :: regex where
  "ssnRegex = seqs [
     WordB,
     rtimes 3 (Class digit),
     ropt (lit CHR ''-''),
     rtimes 2 (Class digit),
     ropt (lit CHR ''-''),
     rtimes 4 (Class digit),
     WordB]"

text \<open>\<^verbatim>\<open>/\b(?:Mr\.|Mrs\.|Ms\.|Dr\.)?\s?[A-Z][a-z]+ (?:[A-Z][a-z]+\s?)+/g\<close>\<close>

definition nameRegex :: regex where
  "nameRegex = seqs [
     WordB,
     ropt (Alt (seqs (map lit ''Mr.''))
         (Alt (seqs (map lit ''Mrs.''))
         (Alt (seqs (map lit ''Ms.''))
              (seqs (map lit ''Dr.''))))),
     ropt (Class whitespace),
     Class uppercase,
     rplus (Class lowercase),
     lit CHR '' '',
     rplus (seqs [Class uppercase, rplus (Class lowercase), ropt (Class whitespace)])]"

subsection \<open>JSON values\<close>

text \<open>
  A parsed JSON value; a number is the parsed number. A value of the source that may be
  \<open>undefined\<close> is a \<open>json option\<close>, with \<open>None\<close> for \<open>undefined\<close>.
\<close>

datatype json =
    JNull
  | JBool bool
  | JNum real
  | JStr string
  | JArr "json list"
  | JObj "(string \<times> json) list"

fun truthy :: "json option \<Rightarrow> bool" where
  "truthy None = False"
| "truthy (Some JNull) = False"
| "truthy (Some (JBool b)) = b"
| "truthy (Some (JNum x)) = (x \<noteq> 0)"
| "truthy (Some (JStr s)) = (s \<noteq> [])"
| "truthy (Some (JArr _)) = True"
| "truthy (Some (JObj _)) = True"

text \<open>\<open>a || b\<close> where \<open>b\<close> is defined.\<close>

fun or_else :: "json option \<Rightarrow> json \<Rightarrow> json" where
  "or_else None b = b"
| "or_else (Some a) b = (if truthy (Some a) then a else b)"

text \<open>
  \<open>v.k\<close> for a value \<open>v\<close> other than \<open>null\<close> and the property names the handler reads
  (\<open>applied_scanners_results\<close>, the result fields, \<open>sanitized_prompt\<close>, \<open>is_valid\<close>,
  \<open>risk_score\<close>, \<open>details\<close>, \<open>detection\<close>, \<open>pii\<close>, \<open>toxicity\<close>,
  \<open>banned_substrings\<close>, \<open>length\<close>, \<open>score\<close>), none of which a prototype defines
  but \<open>length\<close>. Reading a property of \<open>null\<close> throws; the two places where the handler
  can do that are written out in \<open>some_score\<close> and \<open>normalize\<close>.
\<close>

fun get_prop :: "json \<Rightarrow> string \<Rightarrow> json option" where
  "get_prop (JObj kvs) k = map_of kvs k"
| "get_prop (JArr xs) k = (if k = ''length'' then Some (JNum (real (length xs))) else None)"
| "get_prop (JStr s) k = (if k = ''length'' then Some (JNum (real (length s))) else None)"
| "get_prop _ k = None"

text \<open>\<open>v?.k\<close>\<close>

fun opt_chain :: "json option \<Rightarrow> string \<Rightarrow> json option" where
  "opt_chain None k = None"
| "opt_chain (Some JNull) k = None"
| "opt_chain (Some v) k = get_prop v k"

datatype error = TypeError

text \<open>
  \<open>d.k = v\<close> in a module (strict mode) for a truthy \<open>d\<close>: an object gets or updates
  the property, a primitive throws. An array takes the named property, which
  \<open>JSON.stringify\<close> then leaves out of the response.
\<close>

fun set_prop :: "json \<Rightarrow> string \<Rightarrow> json \<Rightarrow> error + json" where
  "set_prop (JObj kvs) k v = Inr (JObj (AList.update k v kvs))"
| "set_prop (JArr xs) k v = Inr (JArr xs)"
| "set_prop _ k v = Inl TypeError"

text \<open>
  \<open>x > 0.7\<close>. On a number parsed from JSON the comparison of doubles agrees with the
  comparison of reals, since no double lies strictly between the double 0.7 and 7/10.
  A string, an array or an object is first converted by \<open>ToNumber\<close> of the runtime,
  which is a parameter \<open>tn\<close> (\<open>None\<close> for \<open>NaN\<close>).
\<close>

fun gt07 :: "(json \<Rightarrow> real option) \<Rightarrow> json option \<Rightarrow> bool" where
  "gt07 tn None = False"
| "gt07 tn (Some JNull) = False"
| "gt07 tn (Some (JBool b)) = b"
| "gt07 tn (Some (JNum x)) = (7 / 10 < x)"
| "gt07 tn (Some v) = (case tn v of None \<Rightarrow> False | Some x \<Rightarrow> 7 / 10 < x)"

text \<open>\<open>items.some((item) => item.score > 0.7)\<close>: stops at the first item that
  exceeds, and throws at an item \<open>null\<close> it reaches.\<close>

fun some_score :: "(json \<Rightarrow> real option) \<Rightarrow> json list \<Rightarrow> error + bool" where
  "some_score tn [] = Inr False"
| "some_score tn (JNull # items) = Inl TypeError"
| "some_score tn (item # items) =
     (if gt07 tn (get_prop item ''score'') then Inr True else some_score tn items)"

subsection \<open>Requests and responses\<close>

record ScanRequest =
  prompt :: string
  scanners :: "string list option"
  banned_substrings_list :: "string list option"
  regex_patterns_list :: "string list option"

text \<open>
  A result built from the backend's payload carries whatever truthy value the payload
  has for \<open>sanitized_prompt\<close>, \<open>risk_score\<close> and \<open>details\<close>, so these fields are JSON
  values.
\<close>

record ScannerResult =
  scanner_name :: string
  input_prompt :: string
  sanitized_prompt :: json
  is_valid :: bool
  risk_score :: json
  details :: json

record ScanResponse =
  original_prompt :: string
  final_sanitized_prompt :: json
  overall_is_valid :: bool
  applied_scanners_results :: "ScannerResult list"

text \<open>What the handler sends back: the backend's payload as it is, a response it built
  (both with status 200), or the error object with status 500.\<close>

datatype reply =
    Passthrough json
  | Scanned ScanResponse
  | InternalServerError

text \<open>\<open>body.scanners || ["anonymize"]\<close>: an array, also the empty one, is truthy.\<close>

definition requestedScanners :: "ScanRequest \<Rightarrow> string list" where
  "requestedScanners body = (case scanners body of None \<Rightarrow> [''anonymize''] | Some xs \<Rightarrow> xs)"

subsection \<open>The normaliser\<close>

definition scannerFieldMap :: "(string \<times> string) list" where
  "scannerFieldMap =
     [(''anonymize'', ''anonymize_result''),
      (''toxicity'', ''toxicity_result''),
      (''secrets'', ''secrets_result''),
      (''bansubstrings'', ''banned_substrings_result''),
      (''regex'', ''regex_result''),
      (''code'', ''code_result'')]"

text \<open>
  \<open>resultField ? apiData[resultField] : null\<close>, for a scanner name that is one of
  the six keys of the map or no property of an object at all (a name such as
  \<open>constructor\<close>, which every object inherits, is not modelled).
\<close>

definition result_of :: "json \<Rightarrow> string \<Rightarrow> json option" where
  "result_of apiData scannerName =
     (case map_of scannerFieldMap scannerName of
        None \<Rightarrow> Some JNull
      | Some resultField \<Rightarrow> get_prop apiData resultField)"

text \<open>The result of one scanner before the detection rules: from the scanner's own result
  object when the payload has one (lines 89 to 99), otherwise from the top-level fields
  (lines 102 to 111).\<close>

definition overall_result :: "json \<Rightarrow> string \<Rightarrow> string \<Rightarrow> ScannerResult" where
  "overall_result apiData p scannerName =
     \<lparr>scanner_name = scannerName,
      input_prompt = p,
      sanitized_prompt = or_else (get_prop apiData ''sanitized_prompt'') (JStr p),
      is_valid = (if scannerName = ''anonymize''
                  then get_prop apiData ''is_valid'' \<noteq> Some (JBool False) else True),
      risk_score = (if scannerName = ''anonymize''
                    then or_else (get_prop apiData ''risk_score'') (JNum 0) else JNum 0),
      details = JObj []\<rparr>"

definition base_result :: "json \<Rightarrow> string \<Rightarrow> string \<Rightarrow> ScannerResult" where
  "base_result apiData p scannerName =
     (case result_of apiData scannerName of
        None \<Rightarrow> overall_result apiData p scannerName
      | Some result \<Rightarrow>
          if truthy (Some result) then
            \<lparr>scanner_name = scannerName,
             input_prompt = p,
             sanitized_prompt =
               or_else (get_prop result ''sanitized_prompt'')
                 (or_else (get_prop apiData ''sanitized_prompt'') (JStr p)),
             is_valid = (get_prop result ''is_valid'' \<noteq> Some (JBool False)),
             risk_score = or_else (get_prop result ''risk_score'') (JNum 0),
             details = or_else (get_prop result ''details'') (JObj [])\<rparr>
          else overall_result apiData p scannerName)"

text \<open>
  The detection rules write into the details of the result, which for a result object of
  the payload is the object inside the payload. The payload is a tree and the handler
  never reads back a property that it wrote, so each result is what it would be with a
  copy of the details.
\<close>

text \<open>The body of the loop over the requested scanners (lines 81 to 136).\<close>

definition scanner_step ::
  "(json \<Rightarrow> real option) \<Rightarrow> json \<Rightarrow> string \<Rightarrow> string \<Rightarrow> error + ScannerResult" where
  "scanner_step tn apiData p scannerName =
     (let scannerResult = base_result apiData p scannerName;
          detection = get_prop apiData ''detection''
      in if scannerName = ''anonymize'' \<and> truthy (opt_chain detection ''pii'') then
           (case set_prop (details scannerResult) ''pii_detected'' (JBool True) of
              Inl e \<Rightarrow> Inl e
            | Inr d \<Rightarrow>
                (case set_prop d ''entities'' (the (opt_chain detection ''pii'')) of
                   Inl e \<Rightarrow> Inl e
                 | Inr d' \<Rightarrow> Inr (scannerResult\<lparr>details := d'\<rparr>)))
         else if scannerName = ''toxicity'' \<and> truthy (opt_chain detection ''toxicity'') then
           (case set_prop (details scannerResult) ''toxicity_scores''
                   (the (opt_chain detection ''toxicity'')) of
              Inl e \<Rightarrow> Inl e
            | Inr d \<Rightarrow>
                (case opt_chain detection ''toxicity'' of
                   Some (JArr items) \<Rightarrow>
                     (case some_score tn items of
                        Inl e \<Rightarrow> Inl e
                      | Inr b \<Rightarrow> Inr (scannerResult\<lparr>details := d, is_valid := \<not> b\<rparr>))
                 | _ \<Rightarrow> Inl TypeError))
         else if scannerName = ''bansubstrings''
                 \<and> truthy (opt_chain detection ''banned_substrings'') then
           (case set_prop (details scannerResult) ''banned_matches''
                   (the (opt_chain detection ''banned_substrings'')) of
              Inl e \<Rightarrow> Inl e
            | Inr d \<Rightarrow>
                Inr (scannerResult\<lparr>details := d,
                       is_valid := \<not> truthy (get_prop (the (opt_chain detection ''banned_substrings''))
                                                ''length'')\<rparr>))
         else Inr scannerResult)"

fun scan_each ::
  "(json \<Rightarrow> real option) \<Rightarrow> json \<Rightarrow> string \<Rightarrow> string list \<Rightarrow> error + ScannerResult list" where
  "scan_each tn apiData p [] = Inr []"
| "scan_each tn apiData p (scannerName # rest) =
     (case scanner_step tn apiData p scannerName of
        Inl e \<Rightarrow> Inl e
      | Inr r \<Rightarrow>
          (case scan_each tn apiData p rest of
             Inl e \<Rightarrow> Inl e
           | Inr rs \<Rightarrow> Inr (r # rs)))"

fun isArray :: "json option \<Rightarrow> bool" where
  "isArray (Some (JArr _)) = True"
| "isArray _ = False"

text \<open>
  The branch \<open>apiResponse.ok\<close> (lines 49 to 156). \<open>Object.keys(null)\<close> throws; a payload
  with an array \<open>applied_scanners_results\<close> is returned as it is; any other payload is
  normalised. \<open>Inl\<close> is an exception, which the handler catches (line 157).
\<close>

definition normalize :: "(json \<Rightarrow> real option) \<Rightarrow> ScanRequest \<Rightarrow> json \<Rightarrow> error + reply" where
  "normalize tn body apiData =
     (if apiData = JNull then Inl TypeError
      else if truthy (get_prop apiData ''applied_scanners_results'')
              \<and> isArray (get_prop apiData ''applied_scanners_results'')
      then Inr (Passthrough apiData)
      else
        (case scan_each tn apiData (prompt body) (requestedScanners body) of
           Inl e \<Rightarrow> Inl e
         | Inr scannerResults \<Rightarrow>
             Inr (Scanned
               \<lparr>original_prompt = prompt body,
                final_sanitized_prompt =
                  or_else (get_prop apiData ''sanitized_prompt'') (JStr (prompt body)),
                overall_is_valid = list_all is_valid scannerResults,
                applied_scanners_results = scannerResults\<rparr>)))"

subsection \<open>The fallback scanners\<close>

definition hasEmail :: "string \<Rightarrow> bool" where
  "hasEmail p = test emailRegex p"

definition hasPhone :: "string \<Rightarrow> bool" where
  "hasPhone p = test phoneRegex p"

definition hasCreditCard :: "string \<Rightarrow> bool" where
  "hasCreditCard p = test creditCardRegex p"

definition hasSSN :: "string \<Rightarrow> bool" where
  "hasSSN p = test ssnRegex p"

definition hasName :: "string \<Rightarrow> bool" where
  "hasName p = test nameRegex p"

definition hasPII :: "string \<Rightarrow> bool" where
  "hasPII p = (hasEmail p \<or> hasPhone p \<or> hasCreditCard p \<or> hasSSN p \<or> hasName p)"

definition toxicWords :: "string list" where
  "toxicWords = [''shit'', ''fuck'', ''damn'', ''ass'', ''idiot'', ''stupid'']"

definition hasToxicity :: "string \<Rightarrow> bool" where
  "hasToxicity p = list_ex (\<lambda>word. str_includes (toLowerCase p) word) toxicWords"

definition potentialSecrets :: "string list" where
  "potentialSecrets =
     [''api_key'', ''password'', ''secret'', ''token'', ''apikey'', ''api key'',
      ''access key'', ''private key'']"

definition hasSecrets :: "string \<Rightarrow> bool" where
  "hasSecrets p = list_ex (\<lambda>word. str_includes (toLowerCase p) word) potentialSecrets"

text \<open>The five replacements (lines 216 to 223), in the order of the source.\<close>

definition redact :: "string \<Rightarrow> string" where
  "redact p =
     replace nameRegex ''[REDACTED_PERSON]''
       (replace ssnRegex ''[REDACTED_SSN]''
         (replace creditCardRegex ''[REDACTED_CC]''
           (replace phoneRegex ''[REDACTED_PHONE]''
             (replace emailRegex ''[REDACTED_EMAIL]'' p))))"

definition sanitizedPrompt :: "string \<Rightarrow> string" where
  "sanitizedPrompt p = (if hasPII p then redact p else p)"

definition anonymizeValid :: "string \<Rightarrow> bool" where
  "anonymizeValid p = (\<not> hasPII p)"

definition anonymizeRiskScore :: "string \<Rightarrow> real" where
  "anonymizeRiskScore p = (if hasPII p then 8 / 10 else 0)"

definition anonymizeDetails :: "string \<Rightarrow> json" where
  "anonymizeDetails p =
     (if hasPII p then
        JObj [(''pii_detected'', JBool True),
              (''found'', JObj [(''email'', JBool (hasEmail p)),
                                (''phone'', JBool (hasPhone p)),
                                (''creditCard'', JBool (hasCreditCard p)),
                                (''ssn'', JBool (hasSSN p)),
                                (''name'', JBool (hasName p))])]
      else JObj [])"

definition toxicityValid :: "string \<Rightarrow> bool" where
  "toxicityValid p = (\<not> hasToxicity p)"

definition toxicityRiskScore :: "string \<Rightarrow> real" where
  "toxicityRiskScore p = (if hasToxicity p then 9 / 10 else 0)"

definition toxicityDetails :: "string \<Rightarrow> json" where
  "toxicityDetails p =
     (if hasToxicity p then
        JObj [(''toxicity_detected'', JBool True),
              (''words_found'',
               JArr (map JStr (filter (\<lambda>word. str_includes (toLowerCase p) word) toxicWords)))]
      else JObj [])"

definition secretsValid :: "string \<Rightarrow> bool" where
  "secretsValid p = (\<not> hasSecrets p)"

definition secretsRiskScore :: "string \<Rightarrow> real" where
  "secretsRiskScore p = (if hasSecrets p then 95 / 100 else 0)"

definition secretsDetails :: "string \<Rightarrow> json" where
  "secretsDetails p =
     (if hasSecrets p then
        JObj [(''secrets_detected'', JBool True),
              (''potential_matches'',
               JArr (map JStr (filter (\<lambda>word. str_includes (toLowerCase p) word) potentialSecrets)))]
      else JObj [])"

text \<open>The body of \<open>forEach\<close> (lines 267 to 324): the results pushed for one requested
  scanner, none for a name that is not one of the six.\<close>

definition fallback_result :: "string \<Rightarrow> string \<Rightarrow> ScannerResult list" where
  "fallback_result p scannerName =
     (if scannerName = ''anonymize'' then
        [\<lparr>scanner_name = scannerName, input_prompt = p,
          sanitized_prompt = JStr (sanitizedPrompt p),
          is_valid = anonymizeValid p,
          risk_score = JNum (anonymizeRiskScore p),
          details = anonymizeDetails p\<rparr>]
      else if scannerName = ''toxicity'' then
        [\<lparr>scanner_name = scannerName, input_prompt = p,
          sanitized_prompt = JStr p,
          is_valid = toxicityValid p,
          risk_score = JNum (toxicityRiskScore p),
          details = toxicityDetails p\<rparr>]
      else if scannerName = ''secrets'' then
        [\<lparr>scanner_name = scannerName, input_prompt = p,
          sanitized_prompt = JStr p,
          is_valid = secretsValid p,
          risk_score = JNum (secretsRiskScore p),
          details = secretsDetails p\<rparr>]
      else if scannerName = ''bansubstrings'' then
        [\<lparr>scanner_name = scannerName, input_prompt = p,
          sanitized_prompt = JStr p,
          is_valid = True,
          risk_score = JNum 0,
          details = JObj [(''substrings_detected'', JBool False)]\<rparr>]
      else if scannerName = ''regex'' then
        [\<lparr>scanner_name = scannerName, input_prompt = p,
          sanitized_prompt = JStr p,
          is_valid = True,
          risk_score = JNum 0,
          details = JObj [(''regex_matches_detected'', JBool False)]\<rparr>]
      else if scannerName = ''code'' then
        [\<lparr>scanner_name = scannerName, input_prompt = p,
          sanitized_prompt = JStr p,
          is_valid = True,
          risk_score = JNum 0,
          details = JObj [(''code_detected'', JBool False)]\<rparr>]
      else [])"

definition fallback :: "ScanRequest \<Rightarrow> ScanResponse" where
  "fallback body =
     (let scannerResults = concat (map (fallback_result (prompt body)) (requestedScanners body))
      in \<lparr>original_prompt = prompt body,
          final_sanitized_prompt = JStr (sanitizedPrompt (prompt body)),
          overall_is_valid = list_all is_valid scannerResults,
          applied_scanners_results = scannerResults\<rparr>)"

subsection \<open>The handler\<close>

text \<open>
  \<open>request.json()\<close> either throws or gives the body. The call of the backend either
  throws (the 3 second timeout, a refused connection or any other transport error),
  answers with a status that is not a success, answers with a body that is not JSON
  (\<open>apiResponse.json()\<close> throws), or answers with a JSON payload.
\<close>

datatype inbound = Malformed | Body ScanRequest

datatype remote = Unreachable | NotOk nat | Unparsable | Payload json

fun POST :: "(json \<Rightarrow> real option) \<Rightarrow> inbound \<Rightarrow> remote \<Rightarrow> reply" where
  "POST tn Malformed backend = InternalServerError"
| "POST tn (Body body) (Payload apiData) =
     (case normalize tn body apiData of
        Inr response \<Rightarrow> response
      | Inl e \<Rightarrow> Scanned (fallback body))"
| "POST tn (Body body) backend = Scanned (fallback body)"

subsection \<open>Notions used in the statements\<close>

text \<open>\<open>needs P r\<close>: by the shape of \<open>r\<close>, every match of \<open>r\<close> consumes a code unit
  that satisfies \<open>P\<close>.\<close>

fun needs :: "(char \<Rightarrow> bool) \<Rightarrow> regex \<Rightarrow> bool" where
  "needs P (Class rs) = (\<forall>c. in_class rs c \<longrightarrow> P c)"
| "needs P WordB = False"
| "needs P (Seq a b) = (needs P a \<or> needs P b)"
| "needs P (Alt a b) = (needs P a \<and> needs P b)"
| "needs P (Rep mn mx r) = (0 < mn \<and> mx \<noteq> Some 0 \<and> needs P r)"

text \<open>A request with a prompt and a scanner list, and no other field.\<close>

definition request :: "string \<Rightarrow> string list option \<Rightarrow> ScanRequest" where
  "request p ss =
     \<lparr>prompt = p, scanners = ss, banned_substrings_list = None, regex_patterns_list = None\<rparr>"

text \<open>A runtime conversion that yields \<open>NaN\<close>; the examples below contain no value
  that is converted.\<close>

definition nan :: "json \<Rightarrow> real option" where
  "nan v = None"

text \<open>A payload that is already in the unified shape, with an invalid entry and an
  overall verdict that says valid.\<close>

definition unified_payload :: json where
  "unified_payload =
     JObj [(''original_prompt'', JStr ''hi''),
           (''final_sanitized_prompt'', JStr ''hi''),
           (''overall_is_valid'', JBool True),
           (''applied_scanners_results'',
            JArr [JObj [(''scanner_name'', JStr ''anonymize''),
                        (''input_prompt'', JStr ''hi''),
                        (''sanitized_prompt'', JStr ''hi''),
                        (''is_valid'', JBool False),
                        (''risk_score'', JNum (8 / 10)),
                        (''details'', JObj [])]])]"

text \<open>The \<open>sanitized_prompt\<close> and the \<open>risk_score\<close> that the payload offers for a scanner
  before the defaults: those of the scanner's own result object when the payload has one,
  otherwise none, but for the top-level \<open>risk_score\<close> that \<open>anonymize\<close> inherits.\<close>

definition sub_sanitized :: "json \<Rightarrow> string \<Rightarrow> json option" where
  "sub_sanitized apiData scannerName =
     (case result_of apiData scannerName of
        None \<Rightarrow> None
      | Some result \<Rightarrow> if truthy (Some result) then get_prop result ''sanitized_prompt'' else None)"

definition sub_risk :: "json \<Rightarrow> string \<Rightarrow> json option" where
  "sub_risk apiData scannerName =
     (case result_of apiData scannerName of
        None \<Rightarrow> (if scannerName = ''anonymize'' then get_prop apiData ''risk_score'' else None)
      | Some result \<Rightarrow>
          if truthy (Some result) then get_prop result ''risk_score''
          else if scannerName = ''anonymize'' then get_prop apiData ''risk_score'' else None)"

text \<open>Payloads in the legacy shapes: a risk score of 5; a result object whose
  \<open>sanitized_prompt\<close> is empty under a top-level one that is not; a top-level
  \<open>sanitized_prompt\<close> that is empty.\<close>

definition risky_payload :: json where
  "risky_payload = JObj [(''anonymize_result'', JObj [(''risk_score'', JNum 5)])]"

definition emptied_payload :: json where
  "emptied_payload =
     JObj [(''sanitized_prompt'', JStr ''[REDACTED]''),
           (''anonymize_result'', JObj [(''sanitized_prompt'', JStr ''''),
                                        (''is_valid'', JBool False)])]"

definition blanked_payload :: json where
  "blanked_payload = JObj [(''sanitized_prompt'', JStr ''''), (''is_valid'', JBool False)]"

text \<open>A payload in the legacy shape with per-item toxicity scores.\<close>

definition toxic_payload :: json where
  "toxic_payload =
     JObj [(''sanitized_prompt'', JStr ''you fool''),
           (''toxicity_result'', JObj [(''is_valid'', JBool True), (''risk_score'', JNum (1 / 10))]),
           (''detection'',
            JObj [(''toxicity'', JArr [JObj [(''label'', JStr ''insult''), (''score'', JNum (9 / 10))],
                                       JObj [(''label'', JStr ''threat''), (''score'', JNum (2 / 10))]])])]"


text \<open>The \<open>details\<close> that the payload offers for a scanner: those of the scanner's own
  result object when the payload has one.\<close>

definition sub_details :: "json \<Rightarrow> string \<Rightarrow> json option" where
  "sub_details apiData scannerName =
     (case result_of apiData scannerName of
        None \<Rightarrow> None
      | Some result \<Rightarrow> if truthy (Some result) then get_prop result ''details'' else None)"

text \<open>A payload whose result object for \<open>toxicity\<close> has an array as its details.\<close>

definition array_details_payload :: json where
  "array_details_payload =
     JObj [(''toxicity_result'', JObj [(''details'', JArr [])]),
           (''detection'',
            JObj [(''toxicity'', JArr [JObj [(''label'', JStr ''insult''),
                                             (''score'', JNum (9 / 10))]])])]"

section \<open>Properties\<close>

subsection \<open>Substrings and matches\<close>

lemma str_includes_iff: "str_includes s w \<longleftrightarrow> sublist w s"
  by (induction s) (auto simp: sublist_Cons_right)

lemma m_suffix: "y \<in> set (m r x) \<Longrightarrow> suffix (snd y) (snd x)"
proof (induction r x arbitrary: y rule: m.induct)
  case (1 rs p)
  then show ?case by simp
next
  case (2 rs p c cs)
  then show ?case by (auto split: if_splits simp: suffix_ConsI)
next
  case (3 p s)
  then show ?case by (auto split: if_splits)
next
  case (4 a b x)
  then obtain z where z: "z \<in> set (m a x)" "y \<in> set (m b z)" by auto
  from "4.IH"(1)[OF z(1)] "4.IH"(2)[OF z(1) z(2)] show ?case
    by (rule suffix_order.trans[rotated])
next
  case (5 a b x)
  from "5.prems" have "y \<in> set (m a x) \<or> y \<in> set (m b x)" by simp
  then show ?case
  proof
    assume "y \<in> set (m a x)"
    then show ?thesis by (rule "5.IH"(1))
  next
    assume "y \<in> set (m b x)"
    then show ?thesis by (rule "5.IH"(2))
  qed
next
  case (6 mn mx r x)
  note unfold = m.simps(6)[of mn mx r x]
  show ?case
  proof (cases "mx = Some 0")
    case True
    with "6.prems" unfold show ?thesis by simp
  next
    case False
    note nz = this
    show ?thesis
    proof (cases "0 < mn")
      case True
      with nz "6.prems" unfold obtain z
        where z: "z \<in> set (m r x)" "y \<in> set (m (Rep (mn - 1) (dec mx) r) z)"
        by auto
      from "6.IH"(1)[OF nz True z(1)] "6.IH"(2)[OF nz True z(1) z(2)] show ?thesis
        by (rule suffix_order.trans[rotated])
    next
      case False
      with nz "6.prems" unfold consider "y = x"
        | z where "z \<in> set (m r x)" "length (snd z) < length (snd x)"
            "y \<in> set (m (Rep 0 (dec mx) r) z)"
        by auto
      then show ?thesis
      proof cases
        case 1
        then show ?thesis by simp
      next
        case 2
        from 2(1,2) have "z \<in> set (filter (\<lambda>y. length (snd y) < length (snd x)) (m r x))"
          by simp
        from "6.IH"(4)[OF nz False this] 2(3) have "suffix (snd y) (snd z)"
          by simp
        moreover from "6.IH"(3)[OF nz False 2(1)] have "suffix (snd z) (snd x)" .
        ultimately show ?thesis by (rule suffix_order.trans)
      qed
    qed
  qed
qed

lemma needs_no_match: "needs P r \<Longrightarrow> \<forall>c\<in>set s. \<not> P c \<Longrightarrow> m r (p, s) = []"
proof (induction r arbitrary: p s)
  case (Class rs)
  then show ?case by (cases s) auto
next
  case WordB
  then show ?case by simp
next
  case (Seq a b)
  show ?case
  proof (cases "needs P a")
    case True
    with Seq show ?thesis by simp
  next
    case False
    with Seq.prems have nb: "needs P b" by simp
    have "m b y = []" if "y \<in> set (m a (p, s))" for y
    proof -
      from m_suffix[OF that] have "set (snd y) \<subseteq> set s" by (auto dest: set_mono_suffix)
      with Seq.prems(2) have "\<forall>c\<in>set (snd y). \<not> P c" by auto
      from Seq.IH(2)[OF nb this, of "fst y"] show ?thesis by simp
    qed
    then show ?thesis by simp
  qed
next
  case (Alt a b)
  then show ?case by simp
next
  case (Rep mn mx r)
  then show ?case by (simp add: m.simps(6))
qed

lemma needs_no_test: "needs P r \<Longrightarrow> \<forall>c\<in>set s. \<not> P c \<Longrightarrow> \<not> test_from r p s"
  by (induction s arbitrary: p) (simp_all add: needs_no_match)

lemma needs_no_replace: "needs P r \<Longrightarrow> \<forall>c\<in>set s. \<not> P c \<Longrightarrow> replace_from r rep p s = s"
proof (induction s arbitrary: p)
  case Nil
  then show ?case by (subst replace_from.simps) (simp add: needs_no_match)
next
  case (Cons c cs)
  from Cons.prems have "m r (p, c # cs) = []" by (rule needs_no_match)
  moreover from Cons have "replace_from r rep (Some c) cs = cs" by simp
  ultimately show ?case by (subst replace_from.simps) simp
qed

lemma in_class_single: "in_class [(a, a)] c \<longleftrightarrow> c = a"
  by (auto simp: in_class_def)

lemma needs_email: "needs (\<lambda>c. c = CHR ''@'') emailRegex"
  by (simp add: emailRegex_def lit_def rplus_def in_class_single)

lemma needs_phone: "needs (in_class digit) phoneRegex"
  by (simp add: phoneRegex_def rtimes_def ropt_def)

lemma needs_cc: "needs (in_class digit) creditCardRegex"
  by (simp add: creditCardRegex_def rtimes_def ropt_def)

lemma needs_ssn: "needs (in_class digit) ssnRegex"
  by (simp add: ssnRegex_def rtimes_def ropt_def)

lemma needs_name: "needs (in_class lowercase) nameRegex"
  by (simp add: nameRegex_def rplus_def ropt_def)

subsection \<open>The shape of the replies\<close>

lemma scanner_step_name: "scanner_step tn apiData p n = Inr r \<Longrightarrow> scanner_name r = n"
  by (auto simp: scanner_step_def base_result_def overall_result_def Let_def
      split: if_splits sum.splits option.splits json.splits)

lemma scan_each_names: "scan_each tn apiData p ns = Inr rs \<Longrightarrow> map scanner_name rs = ns"
  by (induction ns arbitrary: rs) (auto split: sum.splits dest: scanner_step_name)

lemma fallback_result_names:
  "map scanner_name (fallback_result p n) =
     (if n \<in> set [''anonymize'', ''toxicity'', ''secrets'', ''bansubstrings'', ''regex'', ''code'']
      then [n] else [])"
  by (simp add: fallback_result_def)

lemma fallback_names:
  "map scanner_name (applied_scanners_results (fallback body)) =
     filter (\<lambda>n. n \<in> set [''anonymize'', ''toxicity'', ''secrets'', ''bansubstrings'',
                            ''regex'', ''code''])
       (requestedScanners body)"
proof -
  have "map scanner_name (concat (map (fallback_result p) ns)) =
        filter (\<lambda>n. n \<in> set [''anonymize'', ''toxicity'', ''secrets'', ''bansubstrings'',
                               ''regex'', ''code'']) ns"
    for p ns
    by (induction ns) (simp_all add: fallback_result_names del: set_simps)
  then show ?thesis by (simp add: fallback_def Let_def)
qed

lemma fallback_overall:
  "overall_is_valid (fallback body) = list_all is_valid (applied_scanners_results (fallback body))"
  by (simp add: fallback_def Let_def)

lemma normalize_overall:
  "normalize tn body apiData = Inr (Scanned r) \<Longrightarrow>
   overall_is_valid r = list_all is_valid (applied_scanners_results r)"
  by (auto simp: normalize_def split: if_splits sum.splits)

lemma normalize_names:
  "normalize tn body apiData = Inr (Scanned r) \<Longrightarrow>
   map scanner_name (applied_scanners_results r) = requestedScanners body"
  by (auto simp: normalize_def split: if_splits sum.splits dest: scan_each_names)

text \<open>A response that the handler built comes from the fallback or from the normaliser.\<close>

lemma POST_Scanned:
  assumes "POST tn inb backend = Scanned r"
  shows "\<exists>body. inb = Body body \<and>
           (r = fallback body \<or>
            (\<exists>apiData. backend = Payload apiData \<and> normalize tn body apiData = Inr (Scanned r)))"
proof (cases inb)
  case Malformed
  with assms show ?thesis by simp
next
  case (Body body)
  show ?thesis
  proof (cases backend)
    case (Payload apiData)
    with assms Body show ?thesis
      by (cases "normalize tn body apiData") simp_all
  qed (use assms Body in simp_all)
qed

subsection \<open>Claims\<close>

text \<open>
  C1, as the claim states it, fails: a payload that already has an array
  \<open>applied_scanners_results\<close> is sent back as it is, with the verdict of the backend,
  here \<open>overall_is_valid = true\<close> over an entry with \<open>is_valid = false\<close>.
\<close>

theorem passthrough_overall_counterexample:
  "POST nan (Body (request ''hi'' None)) (Payload unified_payload) = Passthrough unified_payload
   \<and> get_prop unified_payload ''overall_is_valid'' = Some (JBool True)
   \<and> get_prop unified_payload ''applied_scanners_results'' =
       Some (JArr [JObj [(''scanner_name'', JStr ''anonymize''),
                        (''input_prompt'', JStr ''hi''),
                        (''sanitized_prompt'', JStr ''hi''),
                        (''is_valid'', JBool False),
                        (''risk_score'', JNum (8 / 10)),
                        (''details'', JObj [])]])"
  by (simp add: unified_payload_def normalize_def)

text \<open>
  C1, amended. In every response that the handler builds itself, from the fallback
  scanners or by normalising the payload, \<open>overall_is_valid\<close> is the conjunction of
  \<open>is_valid\<close> over \<open>applied_scanners_results\<close>, and it is true when that list is
  empty.
\<close>

theorem overall_is_valid_conjunction:
  assumes "POST tn inb backend = Scanned r"
  shows "overall_is_valid r = list_all is_valid (applied_scanners_results r) \<and>
         (applied_scanners_results r = [] \<longrightarrow> overall_is_valid r)"
proof -
  from POST_Scanned[OF assms]
  have "overall_is_valid r = list_all is_valid (applied_scanners_results r)"
    by (auto simp: fallback_overall normalize_overall)
  then show ?thesis by simp
qed

theorem overall_is_valid_conjunction_witness:
  "POST nan (Body (request ''hi'' (Some [''bansubstrings'', ''code'']))) Unreachable
     = Scanned (fallback (request ''hi'' (Some [''bansubstrings'', ''code''])))
   \<and> overall_is_valid (fallback (request ''hi'' (Some [''bansubstrings'', ''code''])))
   \<and> map is_valid
         (applied_scanners_results (fallback (request ''hi'' (Some [''bansubstrings'', ''code'']))))
       = [True, True]"
  using overall_is_valid_conjunction
          [of nan "Body (request ''hi'' (Some [''bansubstrings'', ''code'']))" Unreachable
              "fallback (request ''hi'' (Some [''bansubstrings'', ''code'']))"]
  by (simp add: fallback_def request_def requestedScanners_def fallback_result_def)

text \<open>
  C2, as the claim states it, fails: duplicates are not collapsed. The fallback answers
  a request for \<open>secrets\<close> twice with two results.
\<close>

theorem duplicate_scanners_counterexample:
  "POST nan (Body (request ''hi'' (Some [''secrets'', ''secrets'']))) Unreachable
     = Scanned (fallback (request ''hi'' (Some [''secrets'', ''secrets''])))
   \<and> map scanner_name
         (applied_scanners_results (fallback (request ''hi'' (Some [''secrets'', ''secrets'']))))
       = [''secrets'', ''secrets'']"
  by (simp add: fallback_def request_def requestedScanners_def fallback_result_def)

text \<open>
  C2, amended. In every response that the handler builds itself, from the fallback
  scanners or by normalising the payload, \<open>applied_scanners_results\<close> has one result for
  each entry of the requested scanners, duplicates kept, in the order of the request,
  each with the requested name as \<open>scanner_name\<close>. The fallback skips, without an
  error, the names that are not one of the six scanner kinds; the normaliser gives every
  requested name a result. A payload that already has an array
  \<open>applied_scanners_results\<close> is sent back as it is, whatever was requested.
\<close>

theorem results_follow_request:
  "map scanner_name (applied_scanners_results (fallback body)) =
     filter (\<lambda>n. n \<in> set [''anonymize'', ''toxicity'', ''secrets'', ''bansubstrings'',
                            ''regex'', ''code''])
       (requestedScanners body)
   \<and> (normalize tn body apiData = Inr (Scanned r) \<longrightarrow>
        map scanner_name (applied_scanners_results r) = requestedScanners body)
   \<and> (POST tn inb backend = Scanned r \<longrightarrow>
        (\<exists>body. inb = Body body \<and>
           (r = fallback body \<and>
              map scanner_name (applied_scanners_results r) =
                filter (\<lambda>n. n \<in> set [''anonymize'', ''toxicity'', ''secrets'', ''bansubstrings'',
                                       ''regex'', ''code''])
                  (requestedScanners body)
            \<or> (\<exists>apiData. backend = Payload apiData
                  \<and> normalize tn body apiData = Inr (Scanned r))
              \<and> map scanner_name (applied_scanners_results r) = requestedScanners body)))
   \<and> (isArray (get_prop apiData ''applied_scanners_results'') \<longrightarrow>
        POST tn (Body body) (Payload apiData) = Passthrough apiData)"
proof (intro conjI impI)
  show "map scanner_name (applied_scanners_results (fallback body)) =
     filter (\<lambda>n. n \<in> set [''anonymize'', ''toxicity'', ''secrets'', ''bansubstrings'',
                            ''regex'', ''code''])
       (requestedScanners body)"
    by (rule fallback_names)
next
  assume "normalize tn body apiData = Inr (Scanned r)"
  then show "map scanner_name (applied_scanners_results r) = requestedScanners body"
    by (rule normalize_names)
next
  assume "POST tn inb backend = Scanned r"
  from POST_Scanned[OF this] obtain b where b: "inb = Body b"
    "r = fallback b \<or>
       (\<exists>apiData. backend = Payload apiData \<and> normalize tn b apiData = Inr (Scanned r))"
    by blast
  from b(2) have "r = fallback b \<and>
              map scanner_name (applied_scanners_results r) =
                filter (\<lambda>n. n \<in> set [''anonymize'', ''toxicity'', ''secrets'', ''bansubstrings'',
                                       ''regex'', ''code''])
                  (requestedScanners b)
            \<or> (\<exists>apiData. backend = Payload apiData
                  \<and> normalize tn b apiData = Inr (Scanned r))
              \<and> map scanner_name (applied_scanners_results r) = requestedScanners b"
  proof
    assume "r = fallback b"
    then show ?thesis using fallback_names[of b] by simp
  next
    assume "\<exists>apiData. backend = Payload apiData \<and> normalize tn b apiData = Inr (Scanned r)"
    then show ?thesis using normalize_names by blast
  qed
  with b(1) show "\<exists>body. inb = Body body \<and>
           (r = fallback body \<and>
              map scanner_name (applied_scanners_results r) =
                filter (\<lambda>n. n \<in> set [''anonymize'', ''toxicity'', ''secrets'', ''bansubstrings'',
                                       ''regex'', ''code''])
                  (requestedScanners body)
            \<or> (\<exists>apiData. backend = Payload apiData
                  \<and> normalize tn body apiData = Inr (Scanned r))
              \<and> map scanner_name (applied_scanners_results r) = requestedScanners body)"
    by blast
next
  assume a: "isArray (get_prop apiData ''applied_scanners_results'')"
  then obtain xs where x: "get_prop apiData ''applied_scanners_results'' = Some (JArr xs)"
    by (cases "get_prop apiData ''applied_scanners_results''" rule: isArray.cases) auto
  then have "apiData \<noteq> JNull" by auto
  with x show "POST tn (Body body) (Payload apiData) = Passthrough apiData"
    by (simp add: normalize_def)
qed

theorem results_follow_request_witness:
  "POST nan (Body (request ''hi'' (Some [''code'', ''nope'', ''code'']))) (Payload (JObj [])) =
     Scanned
       \<lparr>original_prompt = ''hi'', final_sanitized_prompt = JStr ''hi'',
        overall_is_valid = True,
        applied_scanners_results =
          [\<lparr>scanner_name = ''code'', input_prompt = ''hi'', sanitized_prompt = JStr ''hi'',
            is_valid = True, risk_score = JNum 0, details = JObj []\<rparr>,
           \<lparr>scanner_name = ''nope'', input_prompt = ''hi'', sanitized_prompt = JStr ''hi'',
            is_valid = True, risk_score = JNum 0, details = JObj []\<rparr>,
           \<lparr>scanner_name = ''code'', input_prompt = ''hi'', sanitized_prompt = JStr ''hi'',
            is_valid = True, risk_score = JNum 0, details = JObj []\<rparr>]\<rparr>
   \<and> map scanner_name
         (applied_scanners_results (fallback (request ''hi'' (Some [''code'', ''nope'', ''code'']))))
       = [''code'', ''code'']
   \<and> POST nan (Body (request ''hi'' (Some [''secrets''])))
         (Payload (JObj [(''applied_scanners_results'', JArr [])]))
       = Passthrough (JObj [(''applied_scanners_results'', JArr [])])"
proof -
  have h: "normalize nan (request ''hi'' (Some [''code'', ''nope'', ''code''])) (JObj []) =
     Inr (Scanned
       \<lparr>original_prompt = ''hi'', final_sanitized_prompt = JStr ''hi'',
        overall_is_valid = True,
        applied_scanners_results =
          [\<lparr>scanner_name = ''code'', input_prompt = ''hi'', sanitized_prompt = JStr ''hi'',
            is_valid = True, risk_score = JNum 0, details = JObj []\<rparr>,
           \<lparr>scanner_name = ''nope'', input_prompt = ''hi'', sanitized_prompt = JStr ''hi'',
            is_valid = True, risk_score = JNum 0, details = JObj []\<rparr>,
           \<lparr>scanner_name = ''code'', input_prompt = ''hi'', sanitized_prompt = JStr ''hi'',
            is_valid = True, risk_score = JNum 0, details = JObj []\<rparr>]\<rparr>)"
    by (simp add: normalize_def request_def requestedScanners_def scanner_step_def
        base_result_def overall_result_def result_of_def scannerFieldMap_def)
  have a: "isArray (get_prop (JObj [(''applied_scanners_results'', JArr [])])
                      ''applied_scanners_results'')"
    by simp
  from results_follow_request
         [of "request ''hi'' (Some [''code'', ''nope'', ''code''])" nan "JObj []"]
       results_follow_request
         [of "request ''hi'' (Some [''secrets''])" nan
             "JObj [(''applied_scanners_results'', JArr [])]", THEN conjunct2, THEN conjunct2,
          THEN conjunct2, rule_format, OF a]
  show ?thesis
    using h by (simp add: request_def requestedScanners_def)
qed

subsection \<open>Results of the normaliser\<close>

lemma scanner_step_fields:
  "scanner_step tn apiData p n = Inr r \<Longrightarrow>
     sanitized_prompt r = sanitized_prompt (base_result apiData p n) \<and>
     risk_score r = risk_score (base_result apiData p n)"
  by (auto simp: scanner_step_def Let_def split: if_splits sum.splits option.splits json.splits)

lemma scan_each_mem:
  "scan_each tn apiData p ns = Inr rs \<Longrightarrow> r \<in> set rs \<Longrightarrow>
     \<exists>n\<in>set ns. scanner_step tn apiData p n = Inr r"
  by (induction ns arbitrary: rs) (auto split: sum.splits)

lemma normalize_mem:
  assumes "normalize tn body apiData = Inr (Scanned r)" "x \<in> set (applied_scanners_results r)"
  shows "scanner_step tn apiData (prompt body) (scanner_name x) = Inr x"
proof -
  from assms(1) have "scan_each tn apiData (prompt body) (requestedScanners body)
      = Inr (applied_scanners_results r)"
    by (auto simp: normalize_def split: if_splits sum.splits)
  from scan_each_mem[OF this assms(2)] obtain n
    where n: "scanner_step tn apiData (prompt body) n = Inr x" by blast
  with scanner_step_name[OF n] show ?thesis by simp
qed

lemma normalize_final:
  "normalize tn body apiData = Inr (Scanned r) \<Longrightarrow>
     final_sanitized_prompt r = or_else (get_prop apiData ''sanitized_prompt'') (JStr (prompt body))"
  by (auto simp: normalize_def split: if_splits sum.splits)

lemma or_else_falsy: "\<not> truthy a \<Longrightarrow> or_else a b = b"
  by (cases a) simp_all

lemma base_sanitized:
  "sanitized_prompt (base_result apiData p n) =
     or_else (sub_sanitized apiData n) (or_else (get_prop apiData ''sanitized_prompt'') (JStr p))"
  by (cases "result_of apiData n")
     (auto simp: base_result_def overall_result_def sub_sanitized_def)

lemma base_risk:
  "risk_score (base_result apiData p n) = or_else (sub_risk apiData n) (JNum 0)"
  by (cases "result_of apiData n")
     (auto simp: base_result_def overall_result_def sub_risk_def)

lemma fallback_result_risk:
  "r \<in> set (fallback_result p n) \<Longrightarrow>
     risk_score r \<in> {JNum 0, JNum (8 / 10), JNum (9 / 10), JNum (95 / 100)}"
  by (auto simp: fallback_result_def anonymizeRiskScore_def toxicityRiskScore_def
      secretsRiskScore_def split: if_splits)

lemma hasSecrets_my_password: "hasSecrets ''my password''"
  by code_simp

text \<open>
  C6, as the claim states it, fails for the empty list: an empty array is truthy, so
  \<open>body.scanners || ["anonymize"]\<close> keeps it and the response has no result at all.
\<close>

theorem empty_scanners_counterexample:
  "POST nan (Body (request ''hi'' (Some []))) Unreachable
     = Scanned (fallback (request ''hi'' (Some [])))
   \<and> applied_scanners_results (fallback (request ''hi'' (Some []))) = []"
  by (simp add: fallback_def request_def requestedScanners_def)

text \<open>
  C6, amended. For every request whose \<open>scanners\<close> field is absent, the handler replies as
  it does, on the same answer of the backend, to the same request with
  \<open>scanners = ["anonymize"]\<close>, and a response that it builds has exactly one result, for
  \<open>anonymize\<close>. (An empty list is kept as it is and gives no result.)
\<close>

theorem absent_scanners_default:
  "POST tn (Body (body\<lparr>scanners := None\<rparr>)) backend =
     POST tn (Body (body\<lparr>scanners := Some [''anonymize'']\<rparr>)) backend
   \<and> (POST tn (Body (body\<lparr>scanners := None\<rparr>)) backend = Scanned r \<longrightarrow>
        map scanner_name (applied_scanners_results r) = [''anonymize''])"
proof
  show "POST tn (Body (body\<lparr>scanners := None\<rparr>)) backend =
     POST tn (Body (body\<lparr>scanners := Some [''anonymize'']\<rparr>)) backend"
    by (cases backend)
       (simp_all add: normalize_def fallback_def requestedScanners_def split: sum.splits)
  show "POST tn (Body (body\<lparr>scanners := None\<rparr>)) backend = Scanned r \<longrightarrow>
        map scanner_name (applied_scanners_results r) = [''anonymize'']"
  proof
    assume "POST tn (Body (body\<lparr>scanners := None\<rparr>)) backend = Scanned r"
    from POST_Scanned[OF this] show "map scanner_name (applied_scanners_results r) = [''anonymize'']"
      by (auto simp: fallback_names requestedScanners_def dest!: normalize_names)
  qed
qed

theorem absent_scanners_default_witness:
  "POST nan (Body (request ''hi'' None)) Unreachable = Scanned (fallback (request ''hi'' None))
   \<and> map scanner_name (applied_scanners_results (fallback (request ''hi'' None))) = [''anonymize'']"
proof -
  have h: "POST nan (Body ((request ''hi'' None)\<lparr>scanners := None\<rparr>)) Unreachable
             = Scanned (fallback (request ''hi'' None))"
    by (simp add: request_def)
  from absent_scanners_default[THEN conjunct2, rule_format, OF h] show ?thesis by simp
qed

text \<open>
  C5, as the claim states it, fails on the normaliser path: the risk score of the payload
  is copied without a clamp. A backend that reports 5 gets 5 into the response.
\<close>

theorem unclamped_risk_counterexample:
  "POST nan (Body (request ''hi'' None)) (Payload risky_payload) =
     Scanned
       \<lparr>original_prompt = ''hi'', final_sanitized_prompt = JStr ''hi'',
        overall_is_valid = True,
        applied_scanners_results =
          [\<lparr>scanner_name = ''anonymize'', input_prompt = ''hi'', sanitized_prompt = JStr ''hi'',
            is_valid = True, risk_score = JNum 5, details = JObj []\<rparr>]\<rparr>"
  by (simp add: risky_payload_def normalize_def request_def requestedScanners_def scanner_step_def
        base_result_def overall_result_def result_of_def scannerFieldMap_def)

text \<open>
  C5, amended. Every result of the fallback path has a number in the closed interval
  from 0 to 1 as its \<open>risk_score\<close>. On the normaliser path the \<open>risk_score\<close> of a result
  is the value that the payload gives for the scanner, as it is, and 0 when that value is
  absent or falsy.
\<close>

theorem risk_score_range:
  "(r \<in> set (applied_scanners_results (fallback body)) \<longrightarrow>
      (\<exists>x. risk_score r = JNum x \<and> 0 \<le> x \<and> x \<le> 1))
   \<and> (normalize tn body apiData = Inr (Scanned resp) \<and> r \<in> set (applied_scanners_results resp) \<longrightarrow>
      risk_score r = or_else (sub_risk apiData (scanner_name r)) (JNum 0))"
proof (intro conjI impI)
  assume "r \<in> set (applied_scanners_results (fallback body))"
  then obtain n where "r \<in> set (fallback_result (prompt body) n)"
    by (auto simp: fallback_def Let_def)
  from fallback_result_risk[OF this] show "\<exists>x. risk_score r = JNum x \<and> 0 \<le> x \<and> x \<le> 1"
    by auto
next
  assume "normalize tn body apiData = Inr (Scanned resp) \<and> r \<in> set (applied_scanners_results resp)"
  then have "scanner_step tn apiData (prompt body) (scanner_name r) = Inr r"
    by (auto dest: normalize_mem)
  from scanner_step_fields[OF this]
  show "risk_score r = or_else (sub_risk apiData (scanner_name r)) (JNum 0)"
    by (simp add: base_risk)
qed

theorem risk_score_range_witness:
  "\<lparr>scanner_name = ''secrets'', input_prompt = ''my password'',
     sanitized_prompt = JStr ''my password'', is_valid = False, risk_score = JNum (95 / 100),
     details = secretsDetails ''my password''\<rparr>
     \<in> set (applied_scanners_results (fallback (request ''my password'' (Some [''secrets'']))))
   \<and> (\<exists>x. JNum (95 / 100) = JNum x \<and> 0 \<le> x \<and> x \<le> 1)"
proof -
  have h: "\<lparr>scanner_name = ''secrets'', input_prompt = ''my password'',
     sanitized_prompt = JStr ''my password'', is_valid = False, risk_score = JNum (95 / 100),
     details = secretsDetails ''my password''\<rparr>
     \<in> set (applied_scanners_results (fallback (request ''my password'' (Some [''secrets'']))))"
    by (simp add: fallback_def request_def requestedScanners_def fallback_result_def
        secretsValid_def secretsRiskScore_def hasSecrets_my_password)
  from risk_score_range[THEN conjunct1, rule_format, OF h] h show ?thesis by simp
qed

text \<open>
  C10, as the claim states it, fails for the result object: when only the
  \<open>sanitized_prompt\<close> of a result object is empty, the chain takes the top-level
  \<open>sanitized_prompt\<close>, not the original prompt, and \<open>final_sanitized_prompt\<close> never
  looks at the result object.
\<close>

theorem empty_sub_object_counterexample:
  "POST nan (Body (request ''jane@example.com'' None)) (Payload emptied_payload) =
     Scanned
       \<lparr>original_prompt = ''jane@example.com'', final_sanitized_prompt = JStr ''[REDACTED]'',
        overall_is_valid = False,
        applied_scanners_results =
          [\<lparr>scanner_name = ''anonymize'', input_prompt = ''jane@example.com'',
            sanitized_prompt = JStr ''[REDACTED]'',
            is_valid = False, risk_score = JNum 0, details = JObj []\<rparr>]\<rparr>"
  by (simp add: emptied_payload_def normalize_def request_def requestedScanners_def
        scanner_step_def base_result_def overall_result_def result_of_def scannerFieldMap_def)

text \<open>
  C10, amended. On the normaliser path, if the top-level \<open>sanitized_prompt\<close> of the
  payload is the empty string, \<open>final_sanitized_prompt\<close> is the original prompt; and every
  result whose scanner has no result object with a truthy \<open>sanitized_prompt\<close> of its own
  has the same \<open>sanitized_prompt\<close> as \<open>final_sanitized_prompt\<close>. So a backend that
  redacts the prompt down to the empty string has the redaction undone in both places.
\<close>

theorem empty_redaction_undone:
  assumes "normalize tn body apiData = Inr (Scanned r)"
  shows "(get_prop apiData ''sanitized_prompt'' = Some (JStr '''') \<longrightarrow>
            final_sanitized_prompt r = JStr (prompt body))
         \<and> (\<forall>x\<in>set (applied_scanners_results r).
              \<not> truthy (sub_sanitized apiData (scanner_name x)) \<longrightarrow>
              sanitized_prompt x = final_sanitized_prompt r)"
proof (intro conjI impI ballI)
  assume "get_prop apiData ''sanitized_prompt'' = Some (JStr '''')"
  with normalize_final[OF assms] show "final_sanitized_prompt r = JStr (prompt body)" by simp
next
  fix x assume x: "x \<in> set (applied_scanners_results r)"
    and f: "\<not> truthy (sub_sanitized apiData (scanner_name x))"
  from normalize_mem[OF assms x] have "sanitized_prompt x =
      sanitized_prompt (base_result apiData (prompt body) (scanner_name x))"
    by (simp add: scanner_step_fields)
  with f show "sanitized_prompt x = final_sanitized_prompt r"
    by (simp add: base_sanitized or_else_falsy normalize_final[OF assms])
qed

theorem empty_redaction_undone_witness:
  "normalize nan (request ''jane@example.com'' None) blanked_payload =
     Inr (Scanned
       \<lparr>original_prompt = ''jane@example.com'',
        final_sanitized_prompt = JStr ''jane@example.com'',
        overall_is_valid = False,
        applied_scanners_results =
          [\<lparr>scanner_name = ''anonymize'', input_prompt = ''jane@example.com'',
            sanitized_prompt = JStr ''jane@example.com'',
            is_valid = False, risk_score = JNum 0, details = JObj []\<rparr>]\<rparr>)
   \<and> get_prop blanked_payload ''sanitized_prompt'' = Some (JStr '''')
   \<and> \<not> truthy (sub_sanitized blanked_payload ''anonymize'')"
proof -
  have h: "normalize nan (request ''jane@example.com'' None) blanked_payload =
     Inr (Scanned
       \<lparr>original_prompt = ''jane@example.com'',
        final_sanitized_prompt = JStr ''jane@example.com'',
        overall_is_valid = False,
        applied_scanners_results =
          [\<lparr>scanner_name = ''anonymize'', input_prompt = ''jane@example.com'',
            sanitized_prompt = JStr ''jane@example.com'',
            is_valid = False, risk_score = JNum 0, details = JObj []\<rparr>]\<rparr>)"
    by (simp add: blanked_payload_def normalize_def request_def requestedScanners_def
        scanner_step_def base_result_def overall_result_def result_of_def scannerFieldMap_def)
  from empty_redaction_undone[OF h] show ?thesis
    using h by (simp add: blanked_payload_def sub_sanitized_def result_of_def scannerFieldMap_def)
qed

subsection \<open>Results of the fallback\<close>

lemma hasSecrets_iff:
  "hasSecrets p \<longleftrightarrow> (\<exists>w\<in>set potentialSecrets. sublist w (toLowerCase p))"
  by (simp add: hasSecrets_def list_ex_iff str_includes_iff)

lemma fallback_mem:
  assumes "r \<in> set (applied_scanners_results (fallback body))"
  shows "r \<in> set (fallback_result (prompt body) (scanner_name r))"
proof -
  from assms obtain n where n: "r \<in> set (fallback_result (prompt body) n)"
    by (auto simp: fallback_def Let_def)
  then have "scanner_name r \<in> set (map scanner_name (fallback_result (prompt body) n))"
    by simp
  then have "scanner_name r = n"
    by (simp add: fallback_result_names split: if_splits)
  with n show ?thesis by simp
qed

lemma fallback_secrets:
  "fallback_result p ''secrets'' =
     [\<lparr>scanner_name = ''secrets'', input_prompt = p, sanitized_prompt = JStr p,
       is_valid = secretsValid p, risk_score = JNum (secretsRiskScore p),
       details = secretsDetails p\<rparr>]"
  by (simp add: fallback_result_def)

lemma some_score_iff:
  "some_score tn items = Inr b \<Longrightarrow> b = (\<exists>item\<in>set items. gt07 tn (get_prop item ''score''))"
  by (induction tn items rule: some_score.induct) (auto split: if_splits)

lemma set_prop_obj:
  "set_prop d k v = Inr (JObj kvs) \<Longrightarrow> map_of kvs k = Some v"
  by (cases d) (auto simp: update_conv')

lemma toxicity_step:
  assumes "scanner_step tn apiData p ''toxicity'' = Inr r"
    and "truthy (opt_chain (get_prop apiData ''detection'') ''toxicity'')"
  shows "\<exists>items. opt_chain (get_prop apiData ''detection'') ''toxicity'' = Some (JArr items)
           \<and> is_valid r = (\<not> (\<exists>item\<in>set items. gt07 tn (get_prop item ''score'')))
           \<and> set_prop (details (base_result apiData p ''toxicity'')) ''toxicity_scores'' (JArr items)
               = Inr (details r)"
  using assms
  by (auto simp: scanner_step_def Let_def split: sum.splits option.splits json.splits
      dest!: some_score_iff)

text \<open>A prompt without \<open>@\<close>, digits and lower-case letters matches none of the five
  patterns, and the five replacements leave it as it is.\<close>

lemma plain_no_pii:
  assumes "\<forall>c\<in>set p. c \<noteq> CHR ''@''" "\<forall>c\<in>set p. \<not> in_class digit c"
    "\<forall>c\<in>set p. \<not> in_class lowercase c"
  shows "\<not> hasEmail p" "\<not> hasPhone p" "\<not> hasCreditCard p" "\<not> hasSSN p" "\<not> hasName p"
  using assms
  by (simp_all add: hasEmail_def hasPhone_def hasCreditCard_def hasSSN_def hasName_def test_def
      needs_no_test[OF needs_email] needs_no_test[OF needs_phone] needs_no_test[OF needs_cc]
      needs_no_test[OF needs_ssn] needs_no_test[OF needs_name])

lemma plain_replace:
  "\<forall>c\<in>set p. c \<noteq> CHR ''@'' \<Longrightarrow> replace emailRegex rep p = p"
  "\<forall>c\<in>set p. \<not> in_class digit c \<Longrightarrow> replace phoneRegex rep p = p"
  "\<forall>c\<in>set p. \<not> in_class digit c \<Longrightarrow> replace creditCardRegex rep p = p"
  "\<forall>c\<in>set p. \<not> in_class digit c \<Longrightarrow> replace ssnRegex rep p = p"
  "\<forall>c\<in>set p. \<not> in_class lowercase c \<Longrightarrow> replace nameRegex rep p = p"
  by (simp_all add: replace_def needs_no_replace[OF needs_email] needs_no_replace[OF needs_phone]
      needs_no_replace[OF needs_cc] needs_no_replace[OF needs_ssn] needs_no_replace[OF needs_name])




subsection \<open>Evaluations\<close>

lemma email_token_plain:
  "\<forall>c\<in>set ''[REDACTED_EMAIL]''. \<not> in_class digit c"
  "\<forall>c\<in>set ''[REDACTED_EMAIL]''. \<not> in_class lowercase c"
  by (simp_all add: in_class_def digit_def lowercase_def)

lemma hasEmail_jane: "hasEmail ''jane@example.com''"
  by code_simp

lemma replace_email_jane:
  "replace emailRegex ''[REDACTED_EMAIL]'' ''jane@example.com'' = ''[REDACTED_EMAIL]''"
  by code_simp

lemma redact_jane: "redact ''jane@example.com'' = ''[REDACTED_EMAIL]''"
  by (simp add: redact_def replace_email_jane plain_replace email_token_plain)

lemma no_secrets_jane: "\<not> hasSecrets ''jane@example.com''"
  by code_simp

lemma hasSecrets_My_PassWord: "hasSecrets ''My PassWord''"
  by code_simp

lemma matches_My_PassWord:
  "filter (\<lambda>word. str_includes (toLowerCase ''My PassWord'') word) potentialSecrets = [''password'']"
  by code_simp

lemma lower_PassWord: "toLowerCase ''PassWord'' = ''password''"
  by code_simp

subsection \<open>Claims on the scanners\<close>

text \<open>
  C7. In the fallback path every result of the \<open>secrets\<close> scanner has \<open>is_valid\<close> false
  exactly when the lower-cased prompt contains one of the keywords \<open>api_key\<close>,
  \<open>password\<close>, \<open>secret\<close>, \<open>token\<close>, \<open>apikey\<close>, \<open>api key\<close>, \<open>access key\<close>,
  \<open>private key\<close>, and has the prompt as its \<open>sanitized_prompt\<close>. When the prompt
  contains \<open>password\<close> in any mix of cases, \<open>is_valid\<close> is false, \<open>risk_score\<close> is 0.95
  and \<open>details.potential_matches\<close> lists \<open>password\<close>. A request for \<open>secrets\<close> gets
  such a result.
\<close>

theorem secrets_scanner:
  "(\<forall>r\<in>set (applied_scanners_results (fallback body)). scanner_name r = ''secrets'' \<longrightarrow>
      is_valid r = (\<not> (\<exists>w\<in>set [''api_key'', ''password'', ''secret'', ''token'', ''apikey'',
                                   ''api key'', ''access key'', ''private key''].
                          sublist w (toLowerCase (prompt body))))
      \<and> sanitized_prompt r = JStr (prompt body)
      \<and> ((\<exists>w. sublist w (prompt body) \<and> toLowerCase w = ''password'') \<longrightarrow>
           is_valid r = False \<and> risk_score r = JNum (95 / 100)
           \<and> (\<exists>ms. get_prop (details r) ''potential_matches'' = Some (JArr ms)
                    \<and> JStr ''password'' \<in> set ms)))
   \<and> (''secrets'' \<in> set (requestedScanners body) \<longrightarrow>
        (\<exists>r\<in>set (applied_scanners_results (fallback body)). scanner_name r = ''secrets''))"
proof (intro conjI ballI impI)
  fix r assume r: "r \<in> set (applied_scanners_results (fallback body))"
    and n: "scanner_name r = ''secrets''"
  let ?p = "prompt body"
  from fallback_mem[OF r] n have req: "r = \<lparr>scanner_name = ''secrets'', input_prompt = ?p,
       sanitized_prompt = JStr ?p, is_valid = secretsValid ?p,
       risk_score = JNum (secretsRiskScore ?p), details = secretsDetails ?p\<rparr>"
    by (simp add: fallback_secrets)
  show "is_valid r = (\<not> (\<exists>w\<in>set [''api_key'', ''password'', ''secret'', ''token'', ''apikey'',
                                   ''api key'', ''access key'', ''private key''].
                          sublist w (toLowerCase ?p)))"
    unfolding req by (simp add: secretsValid_def hasSecrets_iff potentialSecrets_def)
  show "sanitized_prompt r = JStr ?p"
    unfolding req by simp
  assume "\<exists>w. sublist w ?p \<and> toLowerCase w = ''password''"
  then obtain w where "sublist w ?p" "toLowerCase w = ''password''" by blast
  then have sub: "sublist ''password'' (toLowerCase ?p)"
    unfolding toLowerCase_def by (metis map_mono_sublist)
  then have has: "hasSecrets ?p"
    by (auto simp: hasSecrets_iff potentialSecrets_def)
  from sub have "JStr ''password'' \<in>
      set (map JStr (filter (\<lambda>word. str_includes (toLowerCase ?p) word) potentialSecrets))"
    by (simp add: str_includes_iff potentialSecrets_def)
  with has show "is_valid r = False" "risk_score r = JNum (95 / 100)"
    "\<exists>ms. get_prop (details r) ''potential_matches'' = Some (JArr ms) \<and> JStr ''password'' \<in> set ms"
    unfolding req by (simp_all add: secretsValid_def secretsRiskScore_def secretsDetails_def)
next
  assume "''secrets'' \<in> set (requestedScanners body)"
  then have "''secrets'' \<in> set (map scanner_name (applied_scanners_results (fallback body)))"
    unfolding fallback_names by simp
  then show "\<exists>r\<in>set (applied_scanners_results (fallback body)). scanner_name r = ''secrets''"
    by auto
qed

theorem secrets_scanner_witness:
  "applied_scanners_results (fallback (request ''My PassWord'' (Some [''secrets'']))) =
     [\<lparr>scanner_name = ''secrets'', input_prompt = ''My PassWord'',
       sanitized_prompt = JStr ''My PassWord'', is_valid = False, risk_score = JNum (95 / 100),
       details = JObj [(''secrets_detected'', JBool True),
                       (''potential_matches'', JArr [JStr ''password''])]\<rparr>]
   \<and> sublist ''PassWord'' (prompt (request ''My PassWord'' (Some [''secrets''])))
   \<and> toLowerCase ''PassWord'' = ''password''
   \<and> ''secrets'' \<in> set (requestedScanners (request ''My PassWord'' (Some [''secrets''])))"
proof -
  have h: "applied_scanners_results (fallback (request ''My PassWord'' (Some [''secrets'']))) =
     [\<lparr>scanner_name = ''secrets'', input_prompt = ''My PassWord'',
       sanitized_prompt = JStr ''My PassWord'', is_valid = False, risk_score = JNum (95 / 100),
       details = JObj [(''secrets_detected'', JBool True),
                       (''potential_matches'', JArr [JStr ''password''])]\<rparr>]"
    by (simp add: fallback_def request_def requestedScanners_def fallback_result_def
        secretsValid_def secretsRiskScore_def secretsDetails_def hasSecrets_My_PassWord
        matches_My_PassWord)
  have s: "sublist ''PassWord'' (prompt (request ''My PassWord'' (Some [''secrets''])))"
    using sublist_append_leftI[of "''PassWord''" "''My ''"] by (simp add: request_def)
  from secrets_scanner[of "request ''My PassWord'' (Some [''secrets''])"] h s lower_PassWord
  show ?thesis by (simp add: request_def requestedScanners_def)
qed

lemma base_details:
  "details (base_result apiData p n) = or_else (sub_details apiData n) (JObj [])"
  by (cases "result_of apiData n")
     (auto simp: base_result_def overall_result_def sub_details_def)

lemma or_else_array:
  "or_else a (JObj []) = JArr xs \<Longrightarrow> a = Some (JArr xs)"
  by (cases a) (auto split: if_splits)

lemma set_prop_cases:
  assumes "set_prop d k v = Inr d'"
  shows "(\<exists>kvs. d' = JObj kvs \<and> map_of kvs k = Some v) \<or> (\<exists>xs. d' = JArr xs \<and> d = JArr xs)"
  using assms by (cases d) (auto simp: update_conv')

text \<open>
  C8, as the claim states it, fails when the backend sends an array as the details of
  its result object for \<open>toxicity\<close>: the handler sets \<open>toxicity_scores\<close> as a named
  property of that array, which is not part of the JSON of an array, so the response has
  the array and no scores.
\<close>

theorem array_details_counterexample:
  "POST nan (Body (request ''you fool'' (Some [''toxicity'']))) (Payload array_details_payload) =
     Scanned
       \<lparr>original_prompt = ''you fool'', final_sanitized_prompt = JStr ''you fool'',
        overall_is_valid = False,
        applied_scanners_results =
          [\<lparr>scanner_name = ''toxicity'', input_prompt = ''you fool'',
            sanitized_prompt = JStr ''you fool'', is_valid = False, risk_score = JNum 0,
            details = JArr []\<rparr>]\<rparr>"
  by (simp add: array_details_payload_def normalize_def request_def requestedScanners_def
        scanner_step_def base_result_def overall_result_def result_of_def scannerFieldMap_def)

text \<open>
  C8, amended. On the normaliser path, when \<open>toxicity\<close> is requested and the payload has
  a truthy \<open>detection.toxicity\<close>, that value is an array of items and \<open>is_valid\<close> of the
  \<open>toxicity\<close> result is false exactly when the \<open>score\<close> of some item exceeds 0.7 (in
  particular when every item has a number as its score). The details of the result are
  an object that has the items as \<open>toxicity_scores\<close>, unless the payload gives an array
  as the details of its result object for \<open>toxicity\<close>: then the details are that array.
\<close>

theorem toxicity_scores_override:
  assumes "normalize tn body apiData = Inr (Scanned resp)"
    and "truthy (opt_chain (get_prop apiData ''detection'') ''toxicity'')"
    and "r \<in> set (applied_scanners_results resp)"
    and "scanner_name r = ''toxicity''"
  shows "\<exists>items. opt_chain (get_prop apiData ''detection'') ''toxicity'' = Some (JArr items)
           \<and> is_valid r = (\<not> (\<exists>item\<in>set items. gt07 tn (get_prop item ''score'')))
           \<and> ((\<forall>item\<in>set items. \<exists>x. get_prop item ''score'' = Some (JNum x)) \<longrightarrow>
                is_valid r = (\<not> (\<exists>item\<in>set items. \<exists>x. get_prop item ''score'' = Some (JNum x)
                                                    \<and> 7 / 10 < x)))
           \<and> ((\<exists>kvs. details r = JObj kvs \<and> map_of kvs ''toxicity_scores'' = Some (JArr items))
                \<or> (\<exists>xs. details r = JArr xs \<and> sub_details apiData ''toxicity'' = Some (JArr xs)))"
proof -
  from normalize_mem[OF assms(1,3)] assms(4)
  have "scanner_step tn apiData (prompt body) ''toxicity'' = Inr r" by simp
  from toxicity_step[OF this assms(2)] obtain items where
    i: "opt_chain (get_prop apiData ''detection'') ''toxicity'' = Some (JArr items)"
       "is_valid r = (\<not> (\<exists>item\<in>set items. gt07 tn (get_prop item ''score'')))"
       "set_prop (details (base_result apiData (prompt body) ''toxicity'')) ''toxicity_scores''
          (JArr items) = Inr (details r)"
    by blast
  from set_prop_cases[OF i(3)]
  have d: "(\<exists>kvs. details r = JObj kvs \<and> map_of kvs ''toxicity_scores'' = Some (JArr items))
                \<or> (\<exists>xs. details r = JArr xs \<and> sub_details apiData ''toxicity'' = Some (JArr xs))"
    by (auto simp: base_details dest: or_else_array)
  have "is_valid r = (\<not> (\<exists>item\<in>set items. \<exists>x. get_prop item ''score'' = Some (JNum x)
                                            \<and> 7 / 10 < x))"
    if "\<forall>item\<in>set items. \<exists>x. get_prop item ''score'' = Some (JNum x)"
  proof -
    have "gt07 tn (get_prop item ''score'') =
            (\<exists>x. get_prop item ''score'' = Some (JNum x) \<and> 7 / 10 < x)"
      if "item \<in> set items" for item
    proof -
      from \<open>\<forall>item\<in>set items. \<exists>x. get_prop item ''score'' = Some (JNum x)\<close> that
      obtain x where "get_prop item ''score'' = Some (JNum x)" by blast
      then show ?thesis by simp
    qed
    with i(2) show ?thesis by simp
  qed
  with i(1,2) d show ?thesis by blast
qed

theorem toxicity_scores_override_witness:
  "normalize nan (request ''you fool'' (Some [''toxicity''])) toxic_payload =
     Inr (Scanned
       \<lparr>original_prompt = ''you fool'', final_sanitized_prompt = JStr ''you fool'',
        overall_is_valid = False,
        applied_scanners_results =
          [\<lparr>scanner_name = ''toxicity'', input_prompt = ''you fool'',
            sanitized_prompt = JStr ''you fool'', is_valid = False, risk_score = JNum (1 / 10),
            details = JObj [(''toxicity_scores'',
              JArr [JObj [(''label'', JStr ''insult''), (''score'', JNum (9 / 10))],
                    JObj [(''label'', JStr ''threat''), (''score'', JNum (2 / 10))]])]\<rparr>]\<rparr>)
   \<and> truthy (opt_chain (get_prop toxic_payload ''detection'') ''toxicity'')"
proof -
  have h: "normalize nan (request ''you fool'' (Some [''toxicity''])) toxic_payload =
     Inr (Scanned
       \<lparr>original_prompt = ''you fool'', final_sanitized_prompt = JStr ''you fool'',
        overall_is_valid = False,
        applied_scanners_results =
          [\<lparr>scanner_name = ''toxicity'', input_prompt = ''you fool'',
            sanitized_prompt = JStr ''you fool'', is_valid = False, risk_score = JNum (1 / 10),
            details = JObj [(''toxicity_scores'',
              JArr [JObj [(''label'', JStr ''insult''), (''score'', JNum (9 / 10))],
                    JObj [(''label'', JStr ''threat''), (''score'', JNum (2 / 10))]])]\<rparr>]\<rparr>)"
    by (simp add: toxic_payload_def normalize_def request_def requestedScanners_def
        scanner_step_def base_result_def overall_result_def result_of_def scannerFieldMap_def)
  have t: "truthy (opt_chain (get_prop toxic_payload ''detection'') ''toxicity'')"
    by (simp add: toxic_payload_def)
  from toxicity_scores_override[OF h t]
  show ?thesis using h t by simp
qed

text \<open>
  C4, as the claim states it, fails: the redactions are applied to
  \<open>final_sanitized_prompt\<close> whether or not \<open>anonymize\<close> was requested. A request for
  \<open>secrets\<close> alone gets the e-mail address redacted there.
\<close>

theorem redaction_without_anonymize_counterexample:
  "POST nan (Body (request ''jane@example.com'' (Some [''secrets'']))) Unreachable =
     Scanned
       \<lparr>original_prompt = ''jane@example.com'',
        final_sanitized_prompt = JStr ''[REDACTED_EMAIL]'',
        overall_is_valid = True,
        applied_scanners_results =
          [\<lparr>scanner_name = ''secrets'', input_prompt = ''jane@example.com'',
            sanitized_prompt = JStr ''jane@example.com'',
            is_valid = True, risk_score = JNum 0, details = JObj []\<rparr>]\<rparr>"
  by (simp add: fallback_def request_def requestedScanners_def fallback_result_def
      sanitizedPrompt_def hasPII_def hasEmail_jane redact_jane secretsValid_def
      secretsRiskScore_def secretsDetails_def no_secrets_jane)

text \<open>
  C4, amended. In the fallback path \<open>final_sanitized_prompt\<close> is the prompt with the
  redactions of the \<open>anonymize\<close> scanner applied whenever its detection of PII triggered,
  whether or not \<open>anonymize\<close> was requested, and the original prompt otherwise. A result
  of \<open>anonymize\<close> has the same text as its \<open>sanitized_prompt\<close>; the result of any other
  scanner has the original prompt.
\<close>

theorem final_sanitized_prompt_fallback:
  "final_sanitized_prompt (fallback body) =
     JStr (if hasPII (prompt body) then redact (prompt body) else prompt body)
   \<and> (\<forall>r\<in>set (applied_scanners_results (fallback body)).
        sanitized_prompt r =
          (if scanner_name r = ''anonymize'' then final_sanitized_prompt (fallback body)
           else JStr (prompt body)))"
proof (intro conjI ballI)
  show f: "final_sanitized_prompt (fallback body) =
     JStr (if hasPII (prompt body) then redact (prompt body) else prompt body)"
    by (simp add: fallback_def Let_def sanitizedPrompt_def)
  fix r assume "r \<in> set (applied_scanners_results (fallback body))"
  then obtain n where "r \<in> set (fallback_result (prompt body) n)"
    by (auto simp: fallback_def Let_def)
  then show "sanitized_prompt r =
          (if scanner_name r = ''anonymize'' then final_sanitized_prompt (fallback body)
           else JStr (prompt body))"
    unfolding f by (auto simp: fallback_result_def sanitizedPrompt_def split: if_splits)
qed

theorem final_sanitized_prompt_fallback_witness:
  "final_sanitized_prompt (fallback (request ''jane@example.com'' (Some [''anonymize'', ''code''])))
     = JStr ''[REDACTED_EMAIL]''
   \<and> map scanner_name
         (applied_scanners_results (fallback (request ''jane@example.com'' (Some [''anonymize'', ''code'']))))
       = [''anonymize'', ''code'']
   \<and> map sanitized_prompt
         (applied_scanners_results (fallback (request ''jane@example.com'' (Some [''anonymize'', ''code'']))))
       = [JStr ''[REDACTED_EMAIL]'', JStr ''jane@example.com'']"
  using final_sanitized_prompt_fallback
          [of "request ''jane@example.com'' (Some [''anonymize'', ''code''])"]
  by (simp add: fallback_def request_def requestedScanners_def fallback_result_def
      sanitizedPrompt_def hasPII_def hasEmail_jane redact_jane)



















subsection \<open>Claims on the failure of the backend and on repeated scans\<close>

lemma MY_PASSWORD_plain:
  "\<forall>c\<in>set ''MY PASSWORD''. c \<noteq> CHR ''@''"
  "\<forall>c\<in>set ''MY PASSWORD''. \<not> in_class digit c"
  "\<forall>c\<in>set ''MY PASSWORD''. \<not> in_class lowercase c"
  by (simp_all add: in_class_def digit_def lowercase_def)

lemma no_pii_MY_PASSWORD: "\<not> hasPII ''MY PASSWORD''"
  using plain_no_pii[OF MY_PASSWORD_plain] by (simp add: hasPII_def)

lemma hasSecrets_MY_PASSWORD: "hasSecrets ''MY PASSWORD''"
  by code_simp

lemma matches_MY_PASSWORD:
  "filter (\<lambda>word. str_includes (toLowerCase ''MY PASSWORD'') word) potentialSecrets = [''password'']"
  by code_simp

lemma fallback_result_content:
  assumes "x \<in> set (fallback_result p n)"
  shows "input_prompt x = p
     \<and> (scanner_name x = ''anonymize'' \<longrightarrow>
          sanitized_prompt x = JStr (if hasPII p then redact p else p)
          \<and> is_valid x = (\<not> hasPII p)
          \<and> risk_score x = JNum (if hasPII p then 8 / 10 else 0)
          \<and> details x = anonymizeDetails p)
     \<and> (scanner_name x = ''toxicity'' \<longrightarrow>
          sanitized_prompt x = JStr p
          \<and> is_valid x = (\<not> hasToxicity p)
          \<and> risk_score x = JNum (if hasToxicity p then 9 / 10 else 0)
          \<and> details x = toxicityDetails p)
     \<and> (scanner_name x = ''secrets'' \<longrightarrow>
          sanitized_prompt x = JStr p
          \<and> is_valid x = (\<not> hasSecrets p)
          \<and> risk_score x = JNum (if hasSecrets p then 95 / 100 else 0)
          \<and> details x = secretsDetails p)
     \<and> (scanner_name x \<in> set [''bansubstrings'', ''regex'', ''code''] \<longrightarrow>
          sanitized_prompt x = JStr p \<and> is_valid x \<and> risk_score x = JNum 0)"
  using assms
  by (auto simp: fallback_result_def sanitizedPrompt_def anonymizeValid_def
      anonymizeRiskScore_def toxicityValid_def toxicityRiskScore_def secretsValid_def
      secretsRiskScore_def split: if_splits)

text \<open>
  C3. Whenever the call of the backend fails (it throws on a timeout or a refused
  connection, it answers with a status that is not a success, or its body cannot be
  parsed), the handler answers a request body of the declared type with a complete
  response of the fallback scanners, never with the error reply: the response has the
  original prompt, the text after the redactions of \<open>anonymize\<close>, the conjunction of the
  verdicts, and one result for each requested scanner of the six kinds, in the order of
  the request, each with the verdict, the risk score and the text of its local scanner.
\<close>

theorem backend_failure_falls_back:
  assumes "backend = Unreachable \<or> backend = NotOk status \<or> backend = Unparsable"
  shows "\<exists>r. POST tn (Body body) backend = Scanned r
     \<and> original_prompt r = prompt body
     \<and> final_sanitized_prompt r =
         JStr (if hasPII (prompt body) then redact (prompt body) else prompt body)
     \<and> overall_is_valid r = list_all is_valid (applied_scanners_results r)
     \<and> map scanner_name (applied_scanners_results r) =
         filter (\<lambda>n. n \<in> set [''anonymize'', ''toxicity'', ''secrets'', ''bansubstrings'',
                                ''regex'', ''code''])
           (requestedScanners body)
     \<and> (\<forall>x\<in>set (applied_scanners_results r).
          input_prompt x = prompt body
          \<and> (scanner_name x = ''anonymize'' \<longrightarrow>
               sanitized_prompt x =
                 JStr (if hasPII (prompt body) then redact (prompt body) else prompt body)
               \<and> is_valid x = (\<not> hasPII (prompt body))
               \<and> risk_score x = JNum (if hasPII (prompt body) then 8 / 10 else 0)
               \<and> details x = anonymizeDetails (prompt body))
          \<and> (scanner_name x = ''toxicity'' \<longrightarrow>
               sanitized_prompt x = JStr (prompt body)
               \<and> is_valid x = (\<not> hasToxicity (prompt body))
               \<and> risk_score x = JNum (if hasToxicity (prompt body) then 9 / 10 else 0)
               \<and> details x = toxicityDetails (prompt body))
          \<and> (scanner_name x = ''secrets'' \<longrightarrow>
               sanitized_prompt x = JStr (prompt body)
               \<and> is_valid x = (\<not> hasSecrets (prompt body))
               \<and> risk_score x = JNum (if hasSecrets (prompt body) then 95 / 100 else 0)
               \<and> details x = secretsDetails (prompt body))
          \<and> (scanner_name x \<in> set [''bansubstrings'', ''regex'', ''code''] \<longrightarrow>
               sanitized_prompt x = JStr (prompt body) \<and> is_valid x \<and> risk_score x = JNum 0))"
proof -
  from assms have p: "POST tn (Body body) backend = Scanned (fallback body)" by auto
  have o: "original_prompt (fallback body) = prompt body"
    and f: "final_sanitized_prompt (fallback body) =
         JStr (if hasPII (prompt body) then redact (prompt body) else prompt body)"
    by (simp_all add: fallback_def Let_def sanitizedPrompt_def)
  have b: "\<forall>x\<in>set (applied_scanners_results (fallback body)).
          input_prompt x = prompt body
          \<and> (scanner_name x = ''anonymize'' \<longrightarrow>
               sanitized_prompt x =
                 JStr (if hasPII (prompt body) then redact (prompt body) else prompt body)
               \<and> is_valid x = (\<not> hasPII (prompt body))
               \<and> risk_score x = JNum (if hasPII (prompt body) then 8 / 10 else 0)
               \<and> details x = anonymizeDetails (prompt body))
          \<and> (scanner_name x = ''toxicity'' \<longrightarrow>
               sanitized_prompt x = JStr (prompt body)
               \<and> is_valid x = (\<not> hasToxicity (prompt body))
               \<and> risk_score x = JNum (if hasToxicity (prompt body) then 9 / 10 else 0)
               \<and> details x = toxicityDetails (prompt body))
          \<and> (scanner_name x = ''secrets'' \<longrightarrow>
               sanitized_prompt x = JStr (prompt body)
               \<and> is_valid x = (\<not> hasSecrets (prompt body))
               \<and> risk_score x = JNum (if hasSecrets (prompt body) then 95 / 100 else 0)
               \<and> details x = secretsDetails (prompt body))
          \<and> (scanner_name x \<in> set [''bansubstrings'', ''regex'', ''code''] \<longrightarrow>
               sanitized_prompt x = JStr (prompt body) \<and> is_valid x \<and> risk_score x = JNum 0)"
  proof
    fix x assume "x \<in> set (applied_scanners_results (fallback body))"
    then have "x \<in> set (fallback_result (prompt body) (scanner_name x))"
      by (rule fallback_mem)
    then show "input_prompt x = prompt body
          \<and> (scanner_name x = ''anonymize'' \<longrightarrow>
               sanitized_prompt x =
                 JStr (if hasPII (prompt body) then redact (prompt body) else prompt body)
               \<and> is_valid x = (\<not> hasPII (prompt body))
               \<and> risk_score x = JNum (if hasPII (prompt body) then 8 / 10 else 0)
               \<and> details x = anonymizeDetails (prompt body))
          \<and> (scanner_name x = ''toxicity'' \<longrightarrow>
               sanitized_prompt x = JStr (prompt body)
               \<and> is_valid x = (\<not> hasToxicity (prompt body))
               \<and> risk_score x = JNum (if hasToxicity (prompt body) then 9 / 10 else 0)
               \<and> details x = toxicityDetails (prompt body))
          \<and> (scanner_name x = ''secrets'' \<longrightarrow>
               sanitized_prompt x = JStr (prompt body)
               \<and> is_valid x = (\<not> hasSecrets (prompt body))
               \<and> risk_score x = JNum (if hasSecrets (prompt body) then 95 / 100 else 0)
               \<and> details x = secretsDetails (prompt body))
          \<and> (scanner_name x \<in> set [''bansubstrings'', ''regex'', ''code''] \<longrightarrow>
               sanitized_prompt x = JStr (prompt body) \<and> is_valid x \<and> risk_score x = JNum 0)"
      by (rule fallback_result_content)
  qed
  show ?thesis
    apply (rule exI[of _ "fallback body"])
    apply (rule conjI, rule p)
    apply (rule conjI, rule o)
    apply (rule conjI, rule f)
    apply (rule conjI, rule fallback_overall)
    apply (rule conjI, rule fallback_names)
    apply (rule b)
    done
qed

theorem backend_failure_falls_back_witness:
  "POST nan (Body (request ''MY PASSWORD'' (Some [''secrets'', ''nope'', ''code''])))
        (NotOk 503) =
     Scanned
       \<lparr>original_prompt = ''MY PASSWORD'', final_sanitized_prompt = JStr ''MY PASSWORD'',
        overall_is_valid = False,
        applied_scanners_results =
          [\<lparr>scanner_name = ''secrets'', input_prompt = ''MY PASSWORD'',
            sanitized_prompt = JStr ''MY PASSWORD'', is_valid = False,
            risk_score = JNum (95 / 100),
            details = JObj [(''secrets_detected'', JBool True),
                            (''potential_matches'', JArr [JStr ''password''])]\<rparr>,
           \<lparr>scanner_name = ''code'', input_prompt = ''MY PASSWORD'',
            sanitized_prompt = JStr ''MY PASSWORD'', is_valid = True, risk_score = JNum 0,
            details = JObj [(''code_detected'', JBool False)]\<rparr>]\<rparr>"
proof -
  have e: "fallback (request ''MY PASSWORD'' (Some [''secrets'', ''nope'', ''code''])) =
       \<lparr>original_prompt = ''MY PASSWORD'', final_sanitized_prompt = JStr ''MY PASSWORD'',
        overall_is_valid = False,
        applied_scanners_results =
          [\<lparr>scanner_name = ''secrets'', input_prompt = ''MY PASSWORD'',
            sanitized_prompt = JStr ''MY PASSWORD'', is_valid = False,
            risk_score = JNum (95 / 100),
            details = JObj [(''secrets_detected'', JBool True),
                            (''potential_matches'', JArr [JStr ''password''])]\<rparr>,
           \<lparr>scanner_name = ''code'', input_prompt = ''MY PASSWORD'',
            sanitized_prompt = JStr ''MY PASSWORD'', is_valid = True, risk_score = JNum 0,
            details = JObj [(''code_detected'', JBool False)]\<rparr>]\<rparr>"
    by (simp add: fallback_def request_def requestedScanners_def fallback_result_def
        sanitizedPrompt_def no_pii_MY_PASSWORD secretsValid_def secretsRiskScore_def
        secretsDetails_def hasSecrets_MY_PASSWORD matches_MY_PASSWORD)
  from backend_failure_falls_back
         [of "NotOk 503" 503 nan "request ''MY PASSWORD'' (Some [''secrets'', ''nope'', ''code''])"]
  obtain r where "POST nan (Body (request ''MY PASSWORD'' (Some [''secrets'', ''nope'', ''code''])))
        (NotOk 503) = Scanned r"
    by blast
  moreover have "POST nan (Body (request ''MY PASSWORD'' (Some [''secrets'', ''nope'', ''code''])))
        (NotOk 503) = Scanned (fallback (request ''MY PASSWORD'' (Some [''secrets'', ''nope'', ''code''])))"
    by simp
  ultimately show ?thesis using e by simp
qed

end
